theory Spec2Isabelle
  imports Main "HOL-Library.Product_Lexorder"
begin

section \<open>Strings and timestamps\<close>

text \<open>
  Addresses are compared after \<^verbatim>\<open>toLowerCase()\<close>. Wallet addresses are ASCII, so the
  model lowers the letters A to Z and leaves every other character alone.
\<close>

text \<open>\<^verbatim>\<open>Array.prototype.findIndex\<close>; \<open>None\<close> is the result -1.\<close>

fun findIndex :: "('a \<Rightarrow> bool) \<Rightarrow> 'a list \<Rightarrow> nat option" where
  "findIndex p [] = None"
| "findIndex p (x # xs) = (if p x then Some 0 else map_option Suc (findIndex p xs))"

definition lower_char :: "char \<Rightarrow> char" where
  "lower_char c =
     (case findIndex (\<lambda>u. u = c) ''ABCDEFGHIJKLMNOPQRSTUVWXYZ'' of
        Some i \<Rightarrow> ''abcdefghijklmnopqrstuvwxyz'' ! i
      | None \<Rightarrow> c)"

definition toLowerCase :: "string \<Rightarrow> string" where
  "toLowerCase s = map lower_char s"

text \<open>
  A JavaScript \<^verbatim>\<open>Date\<close>, read through its UTC getters. \<open>UTCMonth\<close> is the calendar
  month 1 to 12 as it is printed by \<^verbatim>\<open>toISOString()\<close>. The pass is modelled at one
  reading \<open>now\<close> of the clock.
\<close>

record Date =
  UTCFullYear :: nat
  UTCMonth :: nat
  UTCDate :: nat
  UTCHours :: nat
  UTCMinutes :: nat
  UTCSeconds :: nat
  UTCMilliseconds :: nat

definition valid_Date :: "Date \<Rightarrow> bool" where
  "valid_Date d =
     (UTCFullYear d \<le> 9999 \<and> 1 \<le> UTCMonth d \<and> UTCMonth d \<le> 12 \<and>
      1 \<le> UTCDate d \<and> UTCDate d \<le> 31 \<and> UTCHours d < 24 \<and>
      UTCMinutes d < 60 \<and> UTCSeconds d < 60 \<and> UTCMilliseconds d < 1000)"

text \<open>The calendar day of a date, and the chronological order of two dates.\<close>

definition ymd :: "Date \<Rightarrow> nat \<times> nat \<times> nat" where
  "ymd d = (UTCFullYear d, UTCMonth d, UTCDate d)"

definition instant :: "Date \<Rightarrow> nat \<times> nat \<times> nat \<times> nat \<times> nat \<times> nat \<times> nat" where
  "instant d =
     (UTCFullYear d, UTCMonth d, UTCDate d, UTCHours d, UTCMinutes d, UTCSeconds d,
      UTCMilliseconds d)"

definition not_after :: "Date \<Rightarrow> Date \<Rightarrow> bool" where
  "not_after a b = (instant a \<le> instant b)"

text \<open>The decimal digit of a number below ten.\<close>

definition digit :: "nat \<Rightarrow> char" where
  "digit n = ''0123456789'' ! n"

definition pad2 :: "nat \<Rightarrow> string" where
  "pad2 n = [digit (n div 10 mod 10), digit (n mod 10)]"

definition pad3 :: "nat \<Rightarrow> string" where
  "pad3 n = [digit (n div 100 mod 10), digit (n div 10 mod 10), digit (n mod 10)]"

definition pad4 :: "nat \<Rightarrow> string" where
  "pad4 n =
     [digit (n div 1000 mod 10), digit (n div 100 mod 10), digit (n div 10 mod 10),
      digit (n mod 10)]"

text \<open>\<^verbatim>\<open>toISOString()\<close>: YYYY-MM-DDTHH:mm:ss.sssZ, for the years 0 to 9999.\<close>

definition toISOString :: "Date \<Rightarrow> string" where
  "toISOString d =
     pad4 (UTCFullYear d) @ ''-'' @ pad2 (UTCMonth d) @ ''-'' @ pad2 (UTCDate d) @ ''T'' @
     pad2 (UTCHours d) @ '':'' @ pad2 (UTCMinutes d) @ '':'' @ pad2 (UTCSeconds d) @ ''.'' @
     pad3 (UTCMilliseconds d) @ ''Z''"

text \<open>The calendar day YYYY-MM-DD that \<^verbatim>\<open>toISOString()\<close> starts with.\<close>

definition isoDate :: "Date \<Rightarrow> string" where
  "isoDate d = pad4 (UTCFullYear d) @ ''-'' @ pad2 (UTCMonth d) @ ''-'' @ pad2 (UTCDate d)"

text \<open>\<^verbatim>\<open>s.split('T')[0]\<close>: the text before the first T, all of \<open>s\<close> when it has none.\<close>

definition splitT0 :: "string \<Rightarrow> string" where
  "splitT0 s = takeWhile (\<lambda>c. c \<noteq> CHR ''T'') s"

definition digit_val :: "char \<Rightarrow> nat option" where
  "digit_val c = findIndex (\<lambda>d. d = c) ''0123456789''"

fun number_of :: "string \<Rightarrow> nat option" where
  "number_of [] = Some 0"
| "number_of (c # cs) =
     (case digit_val c of
        None \<Rightarrow> None
      | Some v \<Rightarrow> (case number_of cs of None \<Rightarrow> None | Some r \<Rightarrow> Some (v * 10 ^ length cs + r)))"

text \<open>
  \<^verbatim>\<open>new Date(s)\<close> for a string in the format \<^verbatim>\<open>toISOString()\<close> writes, the only format
  the program stores. \<open>None\<close> is the Invalid Date, whose getters return NaN; other
  formats the built-in parser accepts are outside the model.
\<close>

definition Date_parse :: "string \<Rightarrow> Date option" where
  "Date_parse s =
     (if length s = 24 \<and> s ! 4 = CHR ''-'' \<and> s ! 7 = CHR ''-'' \<and> s ! 10 = CHR ''T'' \<and>
         s ! 13 = CHR '':'' \<and> s ! 16 = CHR '':'' \<and> s ! 19 = CHR ''.'' \<and> s ! 23 = CHR ''Z''
      then
        (case (number_of (take 4 s), number_of (take 2 (drop 5 s)),
               number_of (take 2 (drop 8 s)), number_of (take 2 (drop 11 s)),
               number_of (take 2 (drop 14 s)), number_of (take 2 (drop 17 s)),
               number_of (take 3 (drop 20 s))) of
           (Some y, Some mo, Some d, Some h, Some mi, Some sec, Some ms) \<Rightarrow>
             (let t = \<lparr>UTCFullYear = y, UTCMonth = mo, UTCDate = d, UTCHours = h,
                        UTCMinutes = mi, UTCSeconds = sec, UTCMilliseconds = ms\<rparr>
              in if valid_Date t then Some t else None)
         | _ \<Rightarrow> None)
      else None)"

text \<open>\<^verbatim>\<open>new Date(s).getUTCHours()\<close>; \<open>None\<close> is NaN.\<close>

definition getUTCHours :: "string \<Rightarrow> nat option" where
  "getUTCHours s = map_option UTCHours (Date_parse s)"

section \<open>The wallet record and the persisted snapshot\<close>

text \<open>
  \<^verbatim>\<open>interface WalletData\<close> as it is stored: JSON has no \<^verbatim>\<open>undefined\<close>, so an optional
  field is either absent (\<open>None\<close>) or carries a value.
\<close>

record WalletData =
  address :: string
  balance :: "string option"
  wethBalance :: "string option"
  transactionCount :: "int option"
  lastActivity :: "string option"
  connectedAt :: string
  spinsAvailable :: "int option"
  prizesWon :: "int option"
  gamesPlayed :: "int option"
  dayStreak :: "int option"
  nextSpinTime :: "string option"
  todayTransfer :: "bool option"
  lastTransferDate :: "string option"
  transferAmount :: "string option"
  lastSpinDate :: "string option"

text \<open>
  A property of an object in memory (\<^verbatim>\<open>WalletData\<close> or \<^verbatim>\<open>Partial<WalletData>\<close> passed as
  an argument): the key is absent, or it is present with the value \<^verbatim>\<open>undefined\<close>, or it
  is present with a value.
\<close>

datatype 'a field = Absent | Undefined | Val 'a

record PartialWalletData =
  p_address :: "string field"
  p_balance :: "string field"
  p_wethBalance :: "string field"
  p_transactionCount :: "int field"
  p_lastActivity :: "string field"
  p_connectedAt :: "string field"
  p_spinsAvailable :: "int field"
  p_prizesWon :: "int field"
  p_gamesPlayed :: "int field"
  p_dayStreak :: "int field"
  p_nextSpinTime :: "string field"
  p_todayTransfer :: "bool field"
  p_lastTransferDate :: "string field"
  p_transferAmount :: "string field"
  p_lastSpinDate :: "string field"

record snapshot =
  wallets :: "WalletData list"
  lastUpdate :: string

text \<open>
  What \<^verbatim>\<open>JSON.parse\<close> can return for the file's text: a snapshot object, or a JSON value
  that has no \<^verbatim>\<open>wallets\<close> array (null, a boolean, a number, a string, an array, the
  object \<^verbatim>\<open>{}\<close>).
\<close>

datatype js_value =
  Snapshot snapshot | JNull | JBoolean bool | JNumber int | JString string | JArray | EmptyObject

text \<open>
  The backing file as \<^verbatim>\<open>fs.readFileSync\<close> and \<^verbatim>\<open>JSON.parse\<close> see it: missing or
  unreadable (the read throws), holding text that is not JSON (the parse throws), or
  holding a document that parses. \<open>writable\<close> tells whether \<^verbatim>\<open>fs.writeFileSync\<close> succeeds.
\<close>

datatype backing_file = Missing | Unreadable | Malformed | Parses js_value

record store =
  disk :: backing_file
  writable :: bool

datatype error = TypeError | SyntaxError | IOError | AuthError | InvalidKey

definition emptySnapshot :: "Date \<Rightarrow> snapshot" where
  "emptySnapshot now = \<lparr>wallets = [], lastUpdate = toISOString now\<rparr>"

text \<open>\<^verbatim>\<open>JSON.parse(fs.readFileSync(this.dataPath, 'utf-8'))\<close>, the body of the try block.\<close>

definition readAndParse :: "store \<Rightarrow> error + js_value" where
  "readAndParse st =
     (case disk st of
        Missing \<Rightarrow> Inl IOError
      | Unreadable \<Rightarrow> Inl IOError
      | Malformed \<Rightarrow> Inl SyntaxError
      | Parses v \<Rightarrow> Inr v)"

text \<open>\<^verbatim>\<open>loadData\<close>: the catch block returns an empty snapshot for every exception.\<close>

definition loadData :: "Date \<Rightarrow> store \<Rightarrow> js_value" where
  "loadData now st =
     (case readAndParse st of
        Inr v \<Rightarrow> v
      | Inl e \<Rightarrow> Snapshot (emptySnapshot now))"

text \<open>\<^verbatim>\<open>fs.writeFileSync(this.dataPath, JSON.stringify(data, null, 2))\<close>\<close>

definition writeFileSync :: "snapshot \<Rightarrow> store \<Rightarrow> error + store" where
  "writeFileSync data st =
     (if writable st then Inr (st\<lparr>disk := Parses (Snapshot data)\<rparr>) else Inl IOError)"

text \<open>\<^verbatim>\<open>saveData\<close>: the catch block logs the exception and drops the write.\<close>

definition saveData :: "snapshot \<Rightarrow> store \<Rightarrow> store" where
  "saveData data st = (case writeFileSync data st of Inr st' \<Rightarrow> st' | Inl e \<Rightarrow> st)"

text \<open>
  \<^verbatim>\<open>ensureDatabaseExists\<close>, run by the constructor outside any try block: a missing file
  is created with an empty snapshot.
\<close>

definition ensureDatabaseExists :: "Date \<Rightarrow> store \<Rightarrow> error + store" where
  "ensureDatabaseExists now st =
     (if disk st = Missing then writeFileSync (emptySnapshot now) st else Inr st)"

text \<open>
  \<^verbatim>\<open>data.wallets\<close> of a loaded value: reading \<^verbatim>\<open>.find\<close>, \<^verbatim>\<open>.findIndex\<close> or \<^verbatim>\<open>.filter\<close> of
  it raises a TypeError when the value has no \<^verbatim>\<open>wallets\<close> array.
\<close>

definition loaded :: "js_value \<Rightarrow> error + snapshot" where
  "loaded v = (case v of Snapshot data \<Rightarrow> Inr data | _ \<Rightarrow> Inl TypeError)"

definition same_address :: "string \<Rightarrow> WalletData \<Rightarrow> bool" where
  "same_address a w = (toLowerCase (address w) = toLowerCase a)"

definition getWalletData :: "Date \<Rightarrow> string \<Rightarrow> store \<Rightarrow> error + WalletData option" where
  "getWalletData now a st =
     (case loaded (loadData now st) of
        Inl e \<Rightarrow> Inl e
      | Inr data \<Rightarrow> Inr (find (same_address a) (wallets data)))"

definition getWalletDataSync :: "Date \<Rightarrow> string \<Rightarrow> store \<Rightarrow> error + WalletData option" where
  "getWalletDataSync now a st =
     (case loaded (loadData now st) of
        Inl e \<Rightarrow> Inl e
      | Inr data \<Rightarrow> Inr (find (same_address a) (wallets data)))"

text \<open>\<^verbatim>\<open>!!(walletData.spinsAvailable && walletData.spinsAvailable > 0)\<close>\<close>

definition checkSpinsAvailable :: "Date \<Rightarrow> string \<Rightarrow> store \<Rightarrow> error + bool" where
  "checkSpinsAvailable now a st =
     (case getWalletData now a st of
        Inl e \<Rightarrow> Inl e
      | Inr None \<Rightarrow> Inr False
      | Inr (Some walletData) \<Rightarrow>
          Inr (case spinsAvailable walletData of None \<Rightarrow> False | Some n \<Rightarrow> n \<noteq> 0 \<and> n > 0))"





section \<open>Upserts\<close>

text \<open>
  One key of \<^verbatim>\<open>{...old, ...update}\<close> as it reaches the file: an absent key keeps the old
  value; a present key overwrites it, and a key whose value is \<^verbatim>\<open>undefined\<close> is left out
  by \<^verbatim>\<open>JSON.stringify\<close>.
\<close>

definition spread :: "'a option \<Rightarrow> 'a field \<Rightarrow> 'a option" where
  "spread old new = (case new of Absent \<Rightarrow> old | Undefined \<Rightarrow> None | Val v \<Rightarrow> Some v)"

text \<open>The same for the two keys every stored record has, \<open>address\<close> and \<open>connectedAt\<close>.\<close>

definition spread_required :: "'a \<Rightarrow> 'a field \<Rightarrow> 'a" where
  "spread_required old new = (case new of Val v \<Rightarrow> v | _ \<Rightarrow> old)"

text \<open>\<^verbatim>\<open>{...w, ...p}\<close>\<close>

definition merge :: "WalletData \<Rightarrow> PartialWalletData \<Rightarrow> WalletData" where
  "merge w p =
     \<lparr>address = spread_required (address w) (p_address p),
      balance = spread (balance w) (p_balance p),
      wethBalance = spread (wethBalance w) (p_wethBalance p),
      transactionCount = spread (transactionCount w) (p_transactionCount p),
      lastActivity = spread (lastActivity w) (p_lastActivity p),
      connectedAt = spread_required (connectedAt w) (p_connectedAt p),
      spinsAvailable = spread (spinsAvailable w) (p_spinsAvailable p),
      prizesWon = spread (prizesWon w) (p_prizesWon p),
      gamesPlayed = spread (gamesPlayed w) (p_gamesPlayed p),
      dayStreak = spread (dayStreak w) (p_dayStreak p),
      nextSpinTime = spread (nextSpinTime w) (p_nextSpinTime p),
      todayTransfer = spread (todayTransfer w) (p_todayTransfer p),
      lastTransferDate = spread (lastTransferDate w) (p_lastTransferDate p),
      transferAmount = spread (transferAmount w) (p_transferAmount p),
      lastSpinDate = spread (lastSpinDate w) (p_lastSpinDate p)\<rparr>"

text \<open>A record with an address and nothing else, the object \<^verbatim>\<open>{...p}\<close> is spread over.\<close>

definition bare :: "string \<Rightarrow> WalletData" where
  "bare a =
     \<lparr>address = a, balance = None, wethBalance = None, transactionCount = None,
      lastActivity = None, connectedAt = [], spinsAvailable = None, prizesWon = None,
      gamesPlayed = None, dayStreak = None, nextSpinTime = None, todayTransfer = None,
      lastTransferDate = None, transferAmount = None, lastSpinDate = None\<rparr>"

text \<open>
  \<^verbatim>\<open>saveWalletData(walletData: WalletData)\<close>. The type requires \<^verbatim>\<open>walletData.address\<close>;
  without it \<^verbatim>\<open>walletData.address.toLowerCase()\<close> raises a TypeError.
\<close>

definition saveWalletData :: "Date \<Rightarrow> PartialWalletData \<Rightarrow> store \<Rightarrow> error + store" where
  "saveWalletData now walletData st =
     (case loaded (loadData now st) of
        Inl e \<Rightarrow> Inl e
      | Inr data \<Rightarrow>
          (case p_address walletData of
             Val a \<Rightarrow>
               (case findIndex (same_address a) (wallets data) of
                  Some existingIndex \<Rightarrow>
                    Inr (saveData
                           (data\<lparr>wallets := (wallets data)
                                     [existingIndex :=
                                        (merge (wallets data ! existingIndex) walletData)
                                          \<lparr>connectedAt := toISOString now\<rparr>],
                                  lastUpdate := toISOString now\<rparr>) st)
                | None \<Rightarrow>
                    Inr (saveData
                           (data\<lparr>wallets := wallets data @
                                     [(merge (bare a) walletData)
                                        \<lparr>connectedAt := toISOString now\<rparr>],
                                  lastUpdate := toISOString now\<rparr>) st))
           | _ \<Rightarrow> Inl TypeError))"


section \<open>Freshness checks\<close>

text \<open>
  \<^verbatim>\<open>x ? x.split('T')[0] : null\<close>: an absent or empty string gives null.
\<close>

definition datePart :: "string option \<Rightarrow> string option" where
  "datePart x = (case x of None \<Rightarrow> None | Some s \<Rightarrow> if s = [] then None else Some (splitT0 s))"

text \<open>\<^verbatim>\<open>d && d !== today\<close> for a date part \<open>d\<close> that may be null or empty.\<close>

definition otherDay :: "string option \<Rightarrow> string \<Rightarrow> bool" where
  "otherDay d today = (case d of None \<Rightarrow> False | Some x \<Rightarrow> x \<noteq> [] \<and> x \<noteq> today)"

definition falsy :: "string option \<Rightarrow> bool" where
  "falsy d = (case d of None \<Rightarrow> True | Some x \<Rightarrow> x = [])"

definition isNewDayForWallet :: "Date \<Rightarrow> string \<Rightarrow> store \<Rightarrow> error + bool" where
  "isNewDayForWallet now a st =
     (case getWalletDataSync now a st of
        Inl e \<Rightarrow> Inl e
      | Inr None \<Rightarrow> Inr True
      | Inr (Some walletData) \<Rightarrow>
          (let today = splitT0 (toISOString now);
               lastTransferDay = datePart (lastTransferDate walletData)
           in if otherDay lastTransferDay today then Inr True
              else
                (let lastActivityDay = datePart (lastActivity walletData);
                     lastConnectedDay = datePart (Some (connectedAt walletData))
                 in if otherDay lastActivityDay today then Inr True
                    else if falsy lastActivityDay \<and> otherDay lastConnectedDay today
                    then Inr True
                    else Inr False)))"

text \<open>
  \<^verbatim>\<open>nowUTCHours >= 3 && lastSpinUTCHours < 3\<close>; a comparison with NaN is false.
\<close>

definition shouldRefreshSpinsForNewDay :: "Date \<Rightarrow> string \<Rightarrow> store \<Rightarrow> error + bool" where
  "shouldRefreshSpinsForNewDay now a st =
     (case getWalletDataSync now a st of
        Inl e \<Rightarrow> Inl e
      | Inr None \<Rightarrow> Inr True
      | Inr (Some walletData) \<Rightarrow>
          (let today = splitT0 (toISOString now)
           in case lastSpinDate walletData of
                None \<Rightarrow> Inr True
              | Some s \<Rightarrow>
                  if s = [] then Inr True
                  else
                    (let lastSpinDay = splitT0 s
                     in if lastSpinDay \<noteq> today then Inr True
                        else
                          (let nowUTCHours = UTCHours now;
                               lastSpinUTCHours = getUTCHours s
                           in case lastSpinUTCHours of
                                None \<Rightarrow> Inr False
                              | Some h \<Rightarrow>
                                  if nowUTCHours \<ge> 3 \<and> h < 3 then Inr True else Inr False))))"

definition resetDailyTransferFlagIfNewDay :: "Date \<Rightarrow> string \<Rightarrow> store \<Rightarrow> error + store" where
  "resetDailyTransferFlagIfNewDay now a st =
     (case getWalletDataSync now a st of
        Inl e \<Rightarrow> Inl e
      | Inr None \<Rightarrow> Inr st
      | Inr (Some walletData) \<Rightarrow>
          (let today = splitT0 (toISOString now);
               lastTransferDay = datePart (lastTransferDate walletData)
           in if otherDay lastTransferDay today
              then
                (case loaded (loadData now st) of
                   Inl e \<Rightarrow> Inl e
                 | Inr data \<Rightarrow>
                     (case findIndex (same_address a) (wallets data) of
                        None \<Rightarrow> Inr st
                      | Some walletIndex \<Rightarrow>
                          Inr (saveData
                                 (data\<lparr>wallets := (wallets data)
                                           [walletIndex := (wallets data ! walletIndex)
                                              \<lparr>todayTransfer := Some False\<rparr>],
                                        lastUpdate := toISOString now\<rparr>) st)))
              else Inr st))"

section \<open>The ledger and the daily transfer\<close>

text \<open>
  The network and the random source are outside the program. One pass sees them through
  these oracles: \<open>privateKeyToAccount\<close> gives the address of a key (\<open>None\<close>: it throws);
  \<open>getWETHBalanceViaRPC\<close> gives what the read at a call site returns (\<open>None\<close>:
  \<^verbatim>\<open>undefined\<close>); \<open>parseFloat b\<close> is \<^verbatim>\<open>parseFloat(b.replace(' WETH', ''))\<close> in units of
  1e-9, the precision a balance is printed with (\<open>None\<close>: NaN);
  \<open>performWETHDeposit\<close> and \<open>performWETHTransfer\<close> give \<^verbatim>\<open>result.success\<close> for an amount
  (both catch every exception); \<open>randomDeposit\<close> and \<open>randomTransfer\<close> are the amounts drawn.
\<close>

datatype rpc_site = DepositCheck | DepositRetry nat | TransferCheck

record env =
  privateKeyToAccount :: "string \<Rightarrow> string option"
  getWETHBalanceViaRPC :: "rpc_site \<Rightarrow> string option"
  parseFloat :: "string \<Rightarrow> int option"
  performWETHDeposit :: "string \<Rightarrow> bool"
  performWETHTransfer :: "string \<Rightarrow> bool"
  randomDeposit :: string
  randomTransfer :: "string \<Rightarrow> string"

text \<open>\<^verbatim>\<open>x > 0\<close> and \<^verbatim>\<open>x <= 0\<close> for a number that may be NaN: both are false for NaN.\<close>

definition gt0 :: "int option \<Rightarrow> bool" where
  "gt0 x = (case x of None \<Rightarrow> False | Some v \<Rightarrow> v > 0)"

definition le0 :: "int option \<Rightarrow> bool" where
  "le0 x = (case x of None \<Rightarrow> False | Some v \<Rightarrow> v \<le> 0)"

text \<open>The calls that reach the ledger, in order.\<close>

datatype ledger_call = Deposit string | Transfer string

definition updateDailyTransferStatus ::
  "Date \<Rightarrow> string \<Rightarrow> string \<Rightarrow> string \<Rightarrow> store \<Rightarrow> error + store" where
  "updateDailyTransferStatus now a date amount st =
     (case loaded (loadData now st) of
        Inl e \<Rightarrow> Inl e
      | Inr data \<Rightarrow>
          (case findIndex (same_address a) (wallets data) of
             Some walletIndex \<Rightarrow>
               Inr (saveData
                      (data\<lparr>wallets := (wallets data)
                                [walletIndex := (wallets data ! walletIndex)
                                   \<lparr>todayTransfer := Some True, lastTransferDate := Some date,
                                    transferAmount := Some amount,
                                    lastActivity := Some (toISOString now)\<rparr>],
                             lastUpdate := toISOString now\<rparr>) st)
           | None \<Rightarrow>
               Inr (saveData
                      (data\<lparr>wallets := wallets data @
                                [(bare a)\<lparr>todayTransfer := Some True, lastTransferDate := Some date,
                                          transferAmount := Some amount,
                                          lastActivity := Some (toISOString now),
                                          connectedAt := toISOString now\<rparr>],
                             lastUpdate := toISOString now\<rparr>) st)))"

text \<open>
  \<^verbatim>\<open>checkAndPerformDailyTransfer\<close>: the result, the store afterwards and the ledger calls
  made. Its try block turns every exception into the result false.
\<close>

definition checkAndPerformDailyTransfer ::
  "env \<Rightarrow> Date \<Rightarrow> string \<Rightarrow> store \<Rightarrow> bool \<times> store \<times> ledger_call list" where
  "checkAndPerformDailyTransfer ev now privateKey st =
     (case privateKeyToAccount ev privateKey of
        None \<Rightarrow> (False, st, [])
      | Some a \<Rightarrow>
          (let today = splitT0 (toISOString now)
           in case getWalletData now a st of
                Inl e \<Rightarrow> (False, st, [])
              | Inr walletData \<Rightarrow>
                  if (case walletData of None \<Rightarrow> False
                      | Some w \<Rightarrow> lastTransferDate w = Some today)
                  then (True, st, [])
                  else
                    (case getWETHBalanceViaRPC ev TransferCheck of
                       None \<Rightarrow> (False, st, [])
                     | Some wethBalanceRead \<Rightarrow>
                         if wethBalanceRead = [] then (False, st, [])
                         else if le0 (parseFloat ev wethBalanceRead) then (False, st, [])
                         else
                           (let amount = randomTransfer ev wethBalanceRead
                            in if performWETHTransfer ev amount
                               then
                                 (case updateDailyTransferStatus now a today amount st of
                                    Inl e \<Rightarrow> (False, st, [Transfer amount])
                                  | Inr st' \<Rightarrow> (True, st', [Transfer amount]))
                               else (False, st, [Transfer amount])))))"

text \<open>
  The retry loop of \<^verbatim>\<open>checkAndDepositWETH\<close>: each attempt overwrites \<^verbatim>\<open>newWETHBalance\<close>,
  and a positive balance ends the loop.
\<close>

fun readNewBalance :: "env \<Rightarrow> nat list \<Rightarrow> string option \<Rightarrow> string option" where
  "readNewBalance ev [] newWETHBalance = newWETHBalance"
| "readNewBalance ev (attempt # rest) newWETHBalance =
     (case getWETHBalanceViaRPC ev (DepositRetry attempt) of
        None \<Rightarrow> readNewBalance ev rest None
      | Some b \<Rightarrow>
          if b \<noteq> [] \<and> gt0 (parseFloat ev b) then Some b else readNewBalance ev rest (Some b))"

definition checkAndDepositWETH ::
  "env \<Rightarrow> Date \<Rightarrow> string \<Rightarrow> store \<Rightarrow> bool \<times> store \<times> ledger_call list" where
  "checkAndDepositWETH ev now privateKey st =
     (case privateKeyToAccount ev privateKey of
        None \<Rightarrow> (False, st, [])
      | Some a \<Rightarrow>
          (case getWETHBalanceViaRPC ev DepositCheck of
             None \<Rightarrow> (False, st, [])
           | Some currentWETHBalance \<Rightarrow>
               if currentWETHBalance = [] then (False, st, [])
               else if gt0 (parseFloat ev currentWETHBalance) then (True, st, [])
               else
                 (let amount = randomDeposit ev
                  in if performWETHDeposit ev amount
                     then
                       (case readNewBalance ev [0, 1, 2] None of
                          None \<Rightarrow> (False, st, [Deposit amount])
                        | Some newWETHBalance \<Rightarrow>
                            if newWETHBalance = [] then (False, st, [Deposit amount])
                            else
                              (case loaded (loadData now st) of
                                 Inl e \<Rightarrow> (False, st, [Deposit amount])
                               | Inr data \<Rightarrow>
                                   (case findIndex (same_address a) (wallets data) of
                                      Some walletIndex \<Rightarrow>
                                        (True,
                                         saveData
                                           (data\<lparr>wallets := (wallets data)
                                              [walletIndex := (wallets data ! walletIndex)
                                                 \<lparr>wethBalance := Some newWETHBalance,
                                                  lastActivity := Some (toISOString now)\<rparr>],
                                              lastUpdate := toISOString now\<rparr>) st,
                                         [Deposit amount])
                                    | None \<Rightarrow>
                                        (True,
                                         saveData
                                           (data\<lparr>wallets := wallets data @
                                              [(bare a)\<lparr>wethBalance := Some newWETHBalance,
                                                 lastActivity := Some (toISOString now),
                                                 connectedAt := toISOString now\<rparr>],
                                              lastUpdate := toISOString now\<rparr>) st,
                                         [Deposit amount]))))
                     else (False, st, [Deposit amount]))))"

section \<open>The browser session and the spin loop\<close>

text \<open>
  The browser session is outside the program too. \<open>initialize\<close> tells whether
  \<^verbatim>\<open>bot.initialize()\<close> returns (it rethrows its exceptions). The other methods catch
  every exception; each is given as its result together with whatever it did to the
  store, for the store it found, so that every behaviour of the page is covered:
  \<open>spinWheel k\<close>, \<open>reloadAndReconnect k\<close> and \<open>extractAndSaveWalletData k\<close> are the calls made
  during spin number \<open>k\<close>.
\<close>

record bot =
  initialize :: bool
  connectToLineaRewards :: "store \<Rightarrow> bool \<times> store"
  spinWheel :: "nat \<Rightarrow> store \<Rightarrow> bool \<times> store"
  reloadAndReconnect :: "nat \<Rightarrow> store \<Rightarrow> bool \<times> store"
  extractAndSaveWalletData :: "nat \<Rightarrow> store \<Rightarrow> store"

definition maxSpins :: nat where
  "maxSpins = 10"

text \<open>
  The while loop of \<^verbatim>\<open>performAllAvailableSpins\<close>, entered with \<open>spinCount\<close> spins made. It
  returns the exception that ended it (if the store lookup raised one), the number of
  spins made and the store.
\<close>

function spinLoop ::
  "bot \<Rightarrow> Date \<Rightarrow> string \<Rightarrow> nat \<Rightarrow> store \<Rightarrow> error option \<times> nat \<times> store" where
  "spinLoop b now a spinCount st =
     (if spinCount < maxSpins
      then
        (case checkSpinsAvailable now a st of
           Inl e \<Rightarrow> (Some e, spinCount, st)
         | Inr spinsLeft \<Rightarrow>
             if \<not> spinsLeft then (None, spinCount, st)
             else
               (case spinWheel b (spinCount + 1) st of
                  (success, st1) \<Rightarrow>
                    if success
                    then
                      (case reloadAndReconnect b (spinCount + 1) st1 of
                         (reloaded, st2) \<Rightarrow>
                           if \<not> reloaded then (None, spinCount + 1, st2)
                           else spinLoop b now a (spinCount + 1)
                                  (extractAndSaveWalletData b (spinCount + 1) st2))
                    else (None, spinCount + 1,
                          extractAndSaveWalletData b (spinCount + 1) st1)))
      else (None, spinCount, st))"
  by pat_completeness auto
termination
  by (relation "measure (\<lambda>(b, now, a, spinCount, st). maxSpins - spinCount)") auto

definition performAllAvailableSpins ::
  "bot \<Rightarrow> Date \<Rightarrow> string \<Rightarrow> store \<Rightarrow> error option \<times> nat \<times> store" where
  "performAllAvailableSpins b now a st = spinLoop b now a 0 st"

section \<open>One pass over a wallet\<close>

text \<open>
  The action a pass settles on first: skip the wallet, read the page and then decide, or
  spin on the cached spin count.
\<close>

datatype PlannedAction = Skip | RefreshThenDecide | ConsumeSpins

record WalletResult =
  hasWETHBalance :: bool
  dailyTransferCompleted :: bool
  hasAvailableSpins :: bool
  spinsPerformed :: bool

text \<open>
  What one call of \<^verbatim>\<open>processWallet\<close> leaves behind: the value it returns, the store,
  whether a browser session was opened, the action planned (\<open>None\<close> when an exception
  ended the pass before the choice), the number of spins made and the ledger calls.
\<close>

record pass =
  returned :: WalletResult
  final :: store
  botCreated :: bool
  planned :: "PlannedAction option"
  spinsMade :: nat
  ledger :: "ledger_call list"

text \<open>
  \<^verbatim>\<open>bot = new LineaSpinWheelBot(...); await bot.initialize(); connectToLineaRewards()\<close>,
  then the spins if the refreshed store has any (when \<open>recheck\<close>), or at once (the branch
  that trusts the cached count). An exception leaves the flags as they are and ends the
  pass in the catch block.
\<close>

definition openAndSpin ::
  "bot \<Rightarrow> Date \<Rightarrow> string \<Rightarrow> bool \<Rightarrow> WalletResult \<Rightarrow> store \<Rightarrow> WalletResult \<times> store \<times> nat" where
  "openAndSpin b now a recheck flags st =
     (if \<not> initialize b then (flags, st, 0)
      else
        (case connectToLineaRewards b st of
           (connected, st1) \<Rightarrow>
             if \<not> connected then (flags\<lparr>spinsPerformed := False\<rparr>, st1, 0)
             else
               (case (if recheck then checkSpinsAvailable now a st1 else Inr True) of
                  Inl e \<Rightarrow> (flags, st1, 0)
                | Inr spinsLeft \<Rightarrow>
                    if spinsLeft
                    then
                      (case performAllAvailableSpins b now a st1 of
                         (None, n, st2) \<Rightarrow> (flags\<lparr>spinsPerformed := True\<rparr>, st2, n)
                       | (Some e, n, st2) \<Rightarrow> (flags, st2, n))
                    else (flags\<lparr>spinsPerformed := False\<rparr>, st1, 0))))"

text \<open>\<^verbatim>\<open>walletData && spinsAvailable !== undefined && prizesWon !== undefined && ...\<close>\<close>

definition hasFullData :: "WalletData option \<Rightarrow> bool" where
  "hasFullData walletData =
     (case walletData of
        None \<Rightarrow> False
      | Some w \<Rightarrow> spinsAvailable w \<noteq> None \<and> prizesWon w \<noteq> None \<and> gamesPlayed w \<noteq> None)"

text \<open>
  The part of \<^verbatim>\<open>processWallet\<close> after the two ledger checks, from the lookup of the
  record to the return, for the address \<open>a\<close> of the key.
\<close>

definition planAndDispatch ::
  "env \<Rightarrow> bot \<Rightarrow> Date \<Rightarrow> string \<Rightarrow> bool \<Rightarrow> store \<Rightarrow> ledger_call list \<Rightarrow> pass" where
  "planAndDispatch ev b now a dailyTransferResult st made =
     (let none = \<lparr>hasWETHBalance = False, dailyTransferCompleted = False,
                   hasAvailableSpins = False, spinsPerformed = False\<rparr>;
          caught = (\<lambda>flags s. \<lparr>returned = flags, final = s, botCreated = False,
                                planned = None, spinsMade = 0, ledger = made\<rparr>)
      in case getWalletData now a st of
           Inl e \<Rightarrow> caught none st
         | Inr walletData \<Rightarrow>
             (let hasWETH =
                    (case walletData of
                       None \<Rightarrow> False
                     | Some w \<Rightarrow>
                         (case wethBalance w of
                            None \<Rightarrow> False
                          | Some bal \<Rightarrow> bal \<noteq> [] \<and> gt0 (parseFloat ev bal)))
              in case (if hasFullData walletData then checkSpinsAvailable now a st
                       else Inr False) of
                   Inl e \<Rightarrow> caught (none\<lparr>hasWETHBalance := hasWETH,
                                          dailyTransferCompleted := dailyTransferResult\<rparr>) st
                 | Inr hasSpins \<Rightarrow>
                     (let flags = \<lparr>hasWETHBalance = hasWETH,
                                    dailyTransferCompleted = dailyTransferResult,
                                    hasAvailableSpins = hasSpins, spinsPerformed = False\<rparr>
                      in case (if walletData = None then Inr True
                               else isNewDayForWallet now a st) of
                           Inl e \<Rightarrow> caught flags st
                         | Inr isNewDay \<Rightarrow>
                             (case (if walletData \<noteq> None \<and> isNewDay
                                    then resetDailyTransferFlagIfNewDay now a st
                                    else Inr st) of
                                Inl e \<Rightarrow> caught flags st
                              | Inr st3 \<Rightarrow>
                                  (let today = splitT0 (toISOString now);
                                       dailyTransferDoneToday =
                                         (case walletData of
                                            None \<Rightarrow> False
                                          | Some w \<Rightarrow> lastTransferDate w = Some today)
                                   in case (if walletData = None then Inr True
                                            else shouldRefreshSpinsForNewDay now a st3) of
                                        Inl e \<Rightarrow> caught flags st3
                                      | Inr shouldRefreshSpins \<Rightarrow>
                                          if (case walletData of
                                                None \<Rightarrow> False
                                              | Some w \<Rightarrow>
                                                  dailyTransferDoneToday \<and>
                                                  spinsAvailable w = Some 0 \<and>
                                                  \<not> shouldRefreshSpins)
                                          then \<lparr>returned =
                                                  \<lparr>hasWETHBalance = hasWETH,
                                                   dailyTransferCompleted = True,
                                                   hasAvailableSpins = False,
                                                   spinsPerformed = False\<rparr>,
                                                final = st3, botCreated = False,
                                                planned = Some Skip, spinsMade = 0,
                                                ledger = made\<rparr>
                                          else if walletData \<noteq> None \<and> \<not> isNewDay \<and>
                                                  hasFullData walletData \<and>
                                                  (dailyTransferDoneToday \<or> shouldRefreshSpins)
                                          then
                                            (case openAndSpin b now a True flags st3 of
                                               (r, s, n) \<Rightarrow>
                                                 \<lparr>returned = r, final = s, botCreated = True,
                                                  planned = Some RefreshThenDecide,
                                                  spinsMade = n, ledger = made\<rparr>)
                                          else if walletData \<noteq> None \<and> \<not> isNewDay \<and>
                                                  hasFullData walletData \<and> \<not> shouldRefreshSpins
                                          then
                                            (case checkSpinsAvailable now a st3 of
                                               Inl e \<Rightarrow> caught flags st3
                                             | Inr spinsLeft \<Rightarrow>
                                                 if spinsLeft
                                                 then
                                                   (case openAndSpin b now a False flags st3 of
                                                      (r, s, n) \<Rightarrow>
                                                        \<lparr>returned = r, final = s,
                                                         botCreated = True,
                                                         planned = Some ConsumeSpins,
                                                         spinsMade = n, ledger = made\<rparr>)
                                                 else \<lparr>returned = flags, final = st3,
                                                        botCreated = False, planned = Some Skip,
                                                        spinsMade = 0, ledger = made\<rparr>)
                                          else
                                            (case openAndSpin b now a True flags st3 of
                                               (r, s, n) \<Rightarrow>
                                                 \<lparr>returned = r, final = s, botCreated = True,
                                                  planned = Some RefreshThenDecide,
                                                  spinsMade = n, ledger = made\<rparr>))))))"

text \<open>
  \<^verbatim>\<open>processWallet\<close>. \<^verbatim>\<open>createWalletConfig\<close> and \<^verbatim>\<open>new WalletDatabase()\<close> run before the
  try block, so their exceptions leave the function.
\<close>

definition processWallet :: "env \<Rightarrow> bot \<Rightarrow> Date \<Rightarrow> string \<Rightarrow> store \<Rightarrow> error + pass" where
  "processWallet ev b now privateKey st =
     (case privateKeyToAccount ev privateKey of
        None \<Rightarrow> Inl InvalidKey
      | Some a \<Rightarrow>
          (case ensureDatabaseExists now st of
             Inl e \<Rightarrow> Inl e
           | Inr st0 \<Rightarrow>
               (case checkAndDepositWETH ev now privateKey st0 of
                  (wethDepositResult, st1, made1) \<Rightarrow>
                    (case checkAndPerformDailyTransfer ev now privateKey st1 of
                       (dailyTransferResult, st2, made2) \<Rightarrow>
                         Inr (planAndDispatch ev b now a dailyTransferResult st2
                                (made1 @ made2))))))"

section \<open>Secrets at rest\<close>







fun split :: "char \<Rightarrow> string \<Rightarrow> string list" where
  "split sep [] = [[]]"
| "split sep (c # cs) =
     (if c = sep then [] # split sep cs
      else (case split sep cs of [] \<Rightarrow> [[c]] | p # ps \<Rightarrow> (c # p) # ps))"









section \<open>Example data\<close>

text \<open>Concrete dates, records and stores on which the theorems below are exercised.\<close>

definition utc :: "nat \<Rightarrow> nat \<Rightarrow> nat \<Rightarrow> nat \<Rightarrow> nat \<Rightarrow> nat \<Rightarrow> Date" where
  "utc y mo d h mi s =
     \<lparr>UTCFullYear = y, UTCMonth = mo, UTCDate = d, UTCHours = h, UTCMinutes = mi,
      UTCSeconds = s, UTCMilliseconds = 0\<rparr>"

definition example_wallet :: WalletData where
  "example_wallet =
     \<lparr>address = ''0xAbC1'', balance = None, wethBalance = Some ''0.000100000 WETH'',
      transactionCount = None, lastActivity = Some ''2024-05-17T01:00:00.000Z'',
      connectedAt = ''2024-05-17T01:00:00.000Z'', spinsAvailable = Some 2, prizesWon = Some 0,
      gamesPlayed = Some 1, dayStreak = None, nextSpinTime = None, todayTransfer = None,
      lastTransferDate = None, transferAmount = None, lastSpinDate = None\<rparr>"

definition store_of :: "WalletData list \<Rightarrow> store" where
  "store_of ws =
     \<lparr>disk = Parses (Snapshot \<lparr>wallets = ws, lastUpdate = ''2024-05-17T01:00:00.000Z''\<rparr>),
      writable = True\<rparr>"


text \<open>
  A page that accepts every spin and never lowers the spin count (the store is left as it
  is), and a page on which every spin fails.
\<close>

definition stuck_bot :: bot where
  "stuck_bot =
     \<lparr>initialize = True, connectToLineaRewards = (\<lambda>s. (True, s)),
      spinWheel = (\<lambda>k s. (True, s)), reloadAndReconnect = (\<lambda>k s. (True, s)),
      extractAndSaveWalletData = (\<lambda>k s. s)\<rparr>"

definition failing_bot :: bot where
  "failing_bot =
     \<lparr>initialize = True, connectToLineaRewards = (\<lambda>s. (True, s)),
      spinWheel = (\<lambda>k s. (False, s)), reloadAndReconnect = (\<lambda>k s. (True, s)),
      extractAndSaveWalletData = (\<lambda>k s. s)\<rparr>"

text \<open>A ledger on which the key has a positive balance and every transaction succeeds.\<close>

definition example_env :: env where
  "example_env =
     \<lparr>privateKeyToAccount = (\<lambda>k. if k = ''0xkey1'' then Some ''0xAbC1'' else None),
      getWETHBalanceViaRPC = (\<lambda>site. Some ''0.000100000 WETH''),
      parseFloat = (\<lambda>b. if b = ''0.000100000 WETH'' then Some 100000 else Some 0),
      performWETHDeposit = (\<lambda>amount. True),
      performWETHTransfer = (\<lambda>amount. True),
      randomDeposit = ''0.000000500'',
      randomTransfer = (\<lambda>b. ''0.000042000'')\<rparr>"



section \<open>Properties\<close>

subsection \<open>Lists\<close>




subsection \<open>Reading and writing the file\<close>

lemma loadData_eq:
  "loadData now st = (case disk st of Parses v \<Rightarrow> v | _ \<Rightarrow> Snapshot (emptySnapshot now))"
  by (simp add: loadData_def readAndParse_def split: backing_file.splits)

lemma saveData_eq:
  "saveData data st = (if writable st then st\<lparr>disk := Parses (Snapshot data)\<rparr> else st)"
  by (simp add: saveData_def writeFileSync_def)

subsection \<open>Printing and reading timestamps\<close>

lemma lt10_cases:
  "(k::nat) < 10 \<Longrightarrow> k \<in> {9, 8, 7, 6, 5, 4, 3, 2, 1, 0}"
  by auto

lemma digit_val_digit: "n < 10 \<Longrightarrow> digit_val (digit n) = Some n"
  by (drule lt10_cases) (auto simp: digit_def digit_val_def)

lemma digit_not_T: "n < 10 \<Longrightarrow> digit n \<noteq> CHR ''T''"
  by (drule lt10_cases) (auto simp: digit_def)

lemma digit_inj: "a < 10 \<Longrightarrow> b < 10 \<Longrightarrow> digit a = digit b \<Longrightarrow> a = b"
  by (metis digit_val_digit option.inject)

lemma number_of_2: "a < 10 \<Longrightarrow> b < 10 \<Longrightarrow> number_of [digit a, digit b] = Some (a * 10 + b)"
  by (simp add: digit_val_digit)


lemma number_of_4:
  "a < 10 \<Longrightarrow> b < 10 \<Longrightarrow> c < 10 \<Longrightarrow> d < 10 \<Longrightarrow>
   number_of [digit a, digit b, digit c, digit d] = Some (a * 1000 + b * 100 + c * 10 + d)"
  by (simp add: digit_val_digit)

lemma dec2: "n < 100 \<Longrightarrow> n div 10 mod 10 * 10 + n mod 10 = (n::nat)"
  by (simp add: mod_div_trivial div_mult_mod_eq)

lemma number_of_pad2: "n < 100 \<Longrightarrow> number_of (pad2 n) = Some n"
  unfolding pad2_def by (subst number_of_2) (simp_all add: dec2)


lemma dec4:
  assumes "n < 10000"
  shows "n div 1000 mod 10 * 1000 + n div 100 mod 10 * 100 + n div 10 mod 10 * 10 + n mod 10 = (n::nat)"
proof -
  define w where "w = n div 10"
  define x where "x = w div 10"
  define y where "y = x div 10"
  have x: "n div 100 = x" by (simp add: x_def w_def div_mult2_eq [symmetric])
  have y: "n div 1000 = y" by (simp add: y_def x_def w_def div_mult2_eq [symmetric])
  have "y < 10" using assms unfolding y [symmetric] by simp
  then have a: "y mod 10 = y" by simp
  have b: "x = y * 10 + x mod 10" by (simp add: y_def)
  have c: "w = x * 10 + w mod 10" by (simp add: x_def)
  have d: "n = w * 10 + n mod 10" by (simp add: w_def)
  show ?thesis unfolding x y a w_def [symmetric] using b c d by simp
qed



lemma number_of_pad4:
  assumes "n < 10000"
  shows "number_of (pad4 n) = Some n"
proof -
  have "number_of (pad4 n) =
      Some (n div 1000 mod 10 * 1000 + n div 100 mod 10 * 100 + n div 10 mod 10 * 10 + n mod 10)"
    unfolding pad4_def by (rule number_of_4) simp_all
  then show ?thesis by (simp only: dec4 [OF assms])
qed

lemma length_pad [simp]: "length (pad2 n) = 2" "length (pad3 n) = 3" "length (pad4 n) = 4"
  by (simp_all add: pad2_def pad3_def pad4_def)




lemma splitT0_toISOString: "splitT0 (toISOString d) = isoDate d"
  by (simp add: splitT0_def toISOString_def isoDate_def pad2_def pad3_def pad4_def digit_not_T)

lemma splitT0_isoDate: "splitT0 (isoDate d) = isoDate d"
  by (simp add: splitT0_def isoDate_def pad2_def pad3_def pad4_def digit_not_T)

lemma pad2_inj:
  assumes "a < 100" "b < 100" "pad2 a = pad2 b"
  shows "a = b"
proof -
  from assms(3) have "number_of (pad2 a) = number_of (pad2 b)" by simp
  then show "a = b" using assms(1,2) by (simp only: number_of_pad2 option.inject)
qed

lemma pad4_inj:
  assumes "a < 10000" "b < 10000" "pad4 a = pad4 b"
  shows "a = b"
proof -
  from assms(3) have "number_of (pad4 a) = number_of (pad4 b)" by simp
  then show "a = b" using assms(1,2) by (simp only: number_of_pad4 option.inject)
qed

lemma isoDate_inj:
  assumes "valid_Date a" "valid_Date b" "isoDate a = isoDate b"
  shows "ymd a = ymd b"
proof -
  from assms(3) have "pad4 (UTCFullYear a) = pad4 (UTCFullYear b) \<and>
      pad2 (UTCMonth a) = pad2 (UTCMonth b) \<and> pad2 (UTCDate a) = pad2 (UTCDate b)"
    by (simp add: isoDate_def)
  then have p: "pad4 (UTCFullYear a) = pad4 (UTCFullYear b)"
    "pad2 (UTCMonth a) = pad2 (UTCMonth b)" "pad2 (UTCDate a) = pad2 (UTCDate b)"
    by simp_all
  have "UTCFullYear a = UTCFullYear b"
    using assms(1,2) by (intro pad4_inj [OF _ _ p(1)]) (simp_all add: valid_Date_def)
  moreover have "UTCMonth a = UTCMonth b"
    using assms(1,2) by (intro pad2_inj [OF _ _ p(2)]) (simp_all add: valid_Date_def)
  moreover have "UTCDate a = UTCDate b"
    using assms(1,2) by (intro pad2_inj [OF _ _ p(3)]) (simp_all add: valid_Date_def)
  ultimately show ?thesis by (simp add: ymd_def)
qed

lemma isoDate_cong: "ymd a = ymd b \<Longrightarrow> isoDate a = isoDate b"
  by (simp add: ymd_def isoDate_def)

lemma isoDate_not_empty: "isoDate d \<noteq> []"
  by (simp add: isoDate_def pad4_def)

lemma toISOString_not_empty: "toISOString d \<noteq> []"
  by (simp add: toISOString_def pad4_def)


subsection \<open>Example data\<close>

lemma example_evals:
  "toLowerCase ''0xAbC1'' = ''0xabc1''" "toLowerCase ''0xabc1'' = ''0xabc1''"
  by (simp_all add: toLowerCase_def lower_char_def)

subsection \<open>The spin-refresh boundary\<close>




subsection \<open>The spin budget\<close>






subsection \<open>The new-day check\<close>

lemma getWalletDataSync_time:
  "getWalletDataSync t1 a st = getWalletDataSync t2 a st"
proof (cases "disk st")
  case (Parses v)
  then show ?thesis by (simp add: getWalletDataSync_def loadData_eq)
qed (simp_all add: getWalletDataSync_def loadData_eq loaded_def emptySnapshot_def)

lemma isNewDayForWallet_found:
  "getWalletDataSync now a st = Inr (Some w) \<Longrightarrow>
   isNewDayForWallet now a st =
     Inr (otherDay (datePart (lastTransferDate w)) (isoDate now) \<or>
          otherDay (datePart (lastActivity w)) (isoDate now) \<or>
          (falsy (datePart (lastActivity w)) \<and>
           otherDay (datePart (Some (connectedAt w))) (isoDate now)))"
  by (simp add: isNewDayForWallet_def splitT0_toISOString Let_def)

lemma not_after_ymd: "not_after a b \<Longrightarrow> ymd a \<le> ymd b"
  by (auto simp: not_after_def instant_def ymd_def less_eq_prod_def less_prod_def)

lemma earlier_day_stays_other:
  assumes "not_after d t1" "not_after t1 t2" "ymd d \<noteq> ymd t1"
  shows "ymd d \<noteq> ymd t2"
proof -
  from assms(1,3) have "ymd d < ymd t1" using not_after_ymd by fastforce
  also from assms(2) have "ymd t1 \<le> ymd t2" by (rule not_after_ymd)
  finally show ?thesis by simp
qed

lemma otherDay_isoDate:
  "valid_Date d \<Longrightarrow> valid_Date t \<Longrightarrow>
   otherDay (Some (isoDate d)) (isoDate t) = (ymd d \<noteq> ymd t)"
proof -
  assume "valid_Date d" "valid_Date t"
  then have "(isoDate d = isoDate t) = (ymd d = ymd t)"
    using isoDate_inj [of d t] isoDate_cong [of d t] by blast
  then show ?thesis by (simp add: otherDay_def isoDate_not_empty)
qed

lemma datePart_stamps:
  "datePart (Some (toISOString d)) = Some (isoDate d)"
  "datePart (Some (isoDate d)) = Some (isoDate d)"
  by (simp_all add: datePart_def toISOString_not_empty isoDate_not_empty splitT0_toISOString
      splitT0_isoDate)

lemma otherDay_mono:
  assumes "valid_Date t1" "valid_Date t2" "not_after t1 t2"
    and "x = None \<or> (\<exists>d. valid_Date d \<and> not_after d t1 \<and>
           (x = Some (isoDate d) \<or> x = Some (toISOString d)))"
    and "otherDay (datePart x) (isoDate t1)"
  shows "otherDay (datePart x) (isoDate t2)"
proof (cases x)
  case None
  with assms(5) show ?thesis by (simp add: datePart_def otherDay_def)
next
  case (Some s)
  with assms(4) obtain d where d: "valid_Date d" "not_after d t1"
    and s: "s = isoDate d \<or> s = toISOString d" by auto
  from s Some have p: "datePart x = Some (isoDate d)" by (auto simp: datePart_stamps)
  from assms(5) have "ymd d \<noteq> ymd t1"
    by (simp add: p otherDay_isoDate [OF d(1) assms(1)])
  then have "ymd d \<noteq> ymd t2" by (rule earlier_day_stays_other [OF d(2) assms(3)])
  then show ?thesis by (simp add: p otherDay_isoDate [OF d(1) assms(2)])
qed

text \<open>
  Claim C6, as amended. \<^verbatim>\<open>isNewDayForWallet\<close> is monotone in time for a record whose
  dates are not in the future: let \<open>t1\<close> be not after \<open>t2\<close>, and let the record found for
  the address (if any) carry a \<open>lastTransferDate\<close>, a \<open>lastActivity\<close> and a \<open>connectedAt\<close>
  that, where present, were written at times not after \<open>t1\<close>. If the check is true at
  \<open>t1\<close> and the store is not modified, the check is true at \<open>t2\<close>.
\<close>

theorem isNewDay_monotone:
  assumes "valid_Date t1" "valid_Date t2" "not_after t1 t2"
    and "getWalletDataSync t1 a st = Inr r"
    and "\<forall>w. r = Some w \<longrightarrow>
           (lastTransferDate w = None \<or>
              (\<exists>d. valid_Date d \<and> not_after d t1 \<and> lastTransferDate w = Some (isoDate d))) \<and>
           (lastActivity w = None \<or>
              (\<exists>d. valid_Date d \<and> not_after d t1 \<and> lastActivity w = Some (toISOString d))) \<and>
           (\<exists>d. valid_Date d \<and> not_after d t1 \<and> connectedAt w = toISOString d)"
    and "isNewDayForWallet t1 a st = Inr True"
  shows "isNewDayForWallet t2 a st = Inr True"
proof (cases r)
  case None
  with assms(4) have "getWalletDataSync t2 a st = Inr None"
    using getWalletDataSync_time [of t2 a st t1] by simp
  then show ?thesis by (simp add: isNewDayForWallet_def)
next
  case (Some w)
  with assms(4) have g1: "getWalletDataSync t1 a st = Inr (Some w)" by simp
  then have g2: "getWalletDataSync t2 a st = Inr (Some w)"
    using getWalletDataSync_time [of t2 a st t1] by simp
  note mono = otherDay_mono [OF assms(1-3)]
  from assms(5) Some have
    f1: "lastTransferDate w = None \<or> (\<exists>d. valid_Date d \<and> not_after d t1 \<and>
           (lastTransferDate w = Some (isoDate d) \<or> lastTransferDate w = Some (toISOString d)))"
    and f2: "lastActivity w = None \<or> (\<exists>d. valid_Date d \<and> not_after d t1 \<and>
           (lastActivity w = Some (isoDate d) \<or> lastActivity w = Some (toISOString d)))"
    and f3: "Some (connectedAt w) = None \<or> (\<exists>d. valid_Date d \<and> not_after d t1 \<and>
           (Some (connectedAt w) = Some (isoDate d) \<or> Some (connectedAt w) = Some (toISOString d)))"
    by auto
  from assms(6) have "otherDay (datePart (lastTransferDate w)) (isoDate t1) \<or>
          otherDay (datePart (lastActivity w)) (isoDate t1) \<or>
          (falsy (datePart (lastActivity w)) \<and>
           otherDay (datePart (Some (connectedAt w))) (isoDate t1))"
    by (simp add: isNewDayForWallet_found [OF g1])
  then have "otherDay (datePart (lastTransferDate w)) (isoDate t2) \<or>
          otherDay (datePart (lastActivity w)) (isoDate t2) \<or>
          (falsy (datePart (lastActivity w)) \<and>
           otherDay (datePart (Some (connectedAt w))) (isoDate t2))"
    using mono [OF f1] mono [OF f2] mono [OF f3] by blast
  then show ?thesis by (simp add: isNewDayForWallet_found [OF g2])
qed


theorem isNewDay_monotone_witness:
  "valid_Date (utc 2024 5 18 1 0 0) \<and> valid_Date (utc 2024 5 19 2 0 0) \<and>
   not_after (utc 2024 5 18 1 0 0) (utc 2024 5 19 2 0 0) \<and>
   getWalletDataSync (utc 2024 5 18 1 0 0) ''0xabc1'' (store_of [example_wallet]) =
     Inr (Some example_wallet) \<and>
   lastTransferDate example_wallet = None \<and>
   valid_Date (utc 2024 5 17 1 0 0) \<and>
   not_after (utc 2024 5 17 1 0 0) (utc 2024 5 18 1 0 0) \<and>
   lastActivity example_wallet = Some (toISOString (utc 2024 5 17 1 0 0)) \<and>
   connectedAt example_wallet = toISOString (utc 2024 5 17 1 0 0) \<and>
   isNewDayForWallet (utc 2024 5 18 1 0 0) ''0xabc1'' (store_of [example_wallet]) = Inr True \<and>
   isNewDayForWallet (utc 2024 5 19 2 0 0) ''0xabc1'' (store_of [example_wallet]) = Inr True"
proof -
  let ?t1 = "utc 2024 5 18 1 0 0" and ?t2 = "utc 2024 5 19 2 0 0" and ?d = "utc 2024 5 17 1 0 0"
  let ?st = "store_of [example_wallet]"
  have v: "valid_Date ?t1" "valid_Date ?t2" "valid_Date ?d"
    by (simp_all add: valid_Date_def utc_def)
  have le: "not_after ?t1 ?t2" "not_after ?d ?t1"
    by (simp_all add: not_after_def instant_def utc_def)
  have g: "getWalletDataSync ?t1 ''0xabc1'' ?st = Inr (Some example_wallet)"
    by (simp add: getWalletDataSync_def loaded_def loadData_eq store_of_def same_address_def
        example_wallet_def example_evals)
  have iso: "toISOString ?d = ''2024-05-17T01:00:00.000Z''"
    by (simp add: toISOString_def utc_def pad2_def pad3_def pad4_def digit_def)
  have f: "lastTransferDate example_wallet = None"
    "lastActivity example_wallet = Some (toISOString ?d)"
    "connectedAt example_wallet = toISOString ?d"
    unfolding iso by (simp_all add: example_wallet_def)
  have n1: "isNewDayForWallet ?t1 ''0xabc1'' ?st = Inr True"
  proof -
    have "otherDay (Some (isoDate ?d)) (isoDate ?t1)"
      unfolding otherDay_isoDate [OF v(3) v(1)] by (simp add: ymd_def utc_def)
    then show ?thesis
      unfolding isNewDayForWallet_found [OF g] f datePart_stamps by simp
  qed
  have "isNewDayForWallet ?t2 ''0xabc1'' ?st = Inr True"
    using isNewDay_monotone [OF v(1) v(2) le(1) g _ n1] v(3) le(2) f by blast
  then show ?thesis using v le g f n1 by simp
qed

text \<open>
  Claim C6 as stated, for all records, fails: a record whose \<open>lastActivity\<close> and
  \<open>connectedAt\<close> carry the day after \<open>t1\<close> is on a new day at \<open>t1\<close> and no longer so at
  a later time on that day.
\<close>

theorem isNewDay_not_monotone:
  "not_after (utc 2024 5 17 23 0 0) (utc 2024 5 18 1 0 0) \<and>
   isNewDayForWallet (utc 2024 5 17 23 0 0) ''0xabc1''
     (store_of [example_wallet\<lparr>lastActivity := Some ''2024-05-18T00:30:00.000Z'',
                               connectedAt := ''2024-05-18T00:30:00.000Z''\<rparr>]) = Inr True \<and>
   isNewDayForWallet (utc 2024 5 18 1 0 0) ''0xabc1''
     (store_of [example_wallet\<lparr>lastActivity := Some ''2024-05-18T00:30:00.000Z'',
                               connectedAt := ''2024-05-18T00:30:00.000Z''\<rparr>]) = Inr False"
  by (simp add: not_after_def instant_def utc_def isNewDayForWallet_def getWalletDataSync_def
      loaded_def loadData_eq store_of_def same_address_def example_wallet_def example_evals
      datePart_def otherDay_def falsy_def splitT0_def toISOString_def pad2_def pad3_def
      pad4_def digit_def)



subsection \<open>Load and save under a failing medium\<close>

text \<open>
  Claim C7, as amended. \<^verbatim>\<open>loadData\<close> and \<^verbatim>\<open>saveData\<close> never throw. When the backing
  file is missing, unreadable or is not JSON, \<^verbatim>\<open>loadData\<close> returns the empty snapshot
  stamped with the current time; when the file parses, it returns the parsed value as it
  is. When the medium is unwritable, \<^verbatim>\<open>saveData\<close> drops the write and the store stays as
  it was, and an upsert on it still returns normally; when it is writable, the saved
  snapshot is what the next load returns.
\<close>

theorem load_save_never_throw:
  "(disk st = Missing \<or> disk st = Unreadable \<or> disk st = Malformed \<longrightarrow>
      loadData now st = Snapshot \<lparr>wallets = [], lastUpdate = toISOString now\<rparr>) \<and>
   (\<forall>v. disk st = Parses v \<longrightarrow> loadData now st = v) \<and>
   (\<not> writable st \<longrightarrow> saveData data st = st) \<and>
   (writable st \<longrightarrow> loadData now (saveData data st) = Snapshot data) \<and>
   (\<not> writable st \<and> loaded (loadData now st) = Inr d \<and> p_address p = Val a \<longrightarrow>
      saveWalletData now p st = Inr st)"
proof (intro conjI impI allI)
  assume "disk st = Missing \<or> disk st = Unreadable \<or> disk st = Malformed"
  then show "loadData now st = Snapshot \<lparr>wallets = [], lastUpdate = toISOString now\<rparr>"
    by (auto simp: loadData_eq emptySnapshot_def)
next
  fix v assume "disk st = Parses v"
  then show "loadData now st = v" by (simp add: loadData_eq)
next
  assume "\<not> writable st"
  then show "saveData data st = st" by (simp add: saveData_eq)
next
  assume "writable st"
  then show "loadData now (saveData data st) = Snapshot data"
    by (simp add: saveData_eq loadData_eq)
next
  assume "\<not> writable st \<and> loaded (loadData now st) = Inr d \<and> p_address p = Val a"
  then show "saveWalletData now p st = Inr st"
    by (simp add: saveWalletData_def saveData_eq split: option.splits)
qed

theorem load_save_never_throw_witness:
  "loadData (utc 2024 5 17 5 0 0) \<lparr>disk = Malformed, writable = False\<rparr> =
     Snapshot \<lparr>wallets = [], lastUpdate = ''2024-05-17T05:00:00.000Z''\<rparr> \<and>
   loadData (utc 2024 5 17 5 0 0) (store_of [example_wallet]) =
     Snapshot \<lparr>wallets = [example_wallet], lastUpdate = ''2024-05-17T01:00:00.000Z''\<rparr> \<and>
   saveData \<lparr>wallets = [example_wallet], lastUpdate = ''2024-05-17T05:00:00.000Z''\<rparr>
     \<lparr>disk = Malformed, writable = False\<rparr> = \<lparr>disk = Malformed, writable = False\<rparr> \<and>
   loadData (utc 2024 5 17 5 0 0)
     (saveData \<lparr>wallets = [example_wallet], lastUpdate = ''2024-05-17T05:00:00.000Z''\<rparr>
        (store_of [])) =
     Snapshot \<lparr>wallets = [example_wallet], lastUpdate = ''2024-05-17T05:00:00.000Z''\<rparr> \<and>
   saveWalletData (utc 2024 5 17 5 0 0)
     \<lparr>p_address = Val ''0xabc1'', p_balance = Absent, p_wethBalance = Absent,
      p_transactionCount = Absent, p_lastActivity = Absent, p_connectedAt = Absent,
      p_spinsAvailable = Val 3, p_prizesWon = Absent, p_gamesPlayed = Absent,
      p_dayStreak = Absent, p_nextSpinTime = Absent, p_todayTransfer = Absent,
      p_lastTransferDate = Absent, p_transferAmount = Absent, p_lastSpinDate = Absent\<rparr>
     \<lparr>disk = Malformed, writable = False\<rparr> = Inr \<lparr>disk = Malformed, writable = False\<rparr>"
proof -
  let ?now = "utc 2024 5 17 5 0 0"
  let ?bad = "\<lparr>disk = Malformed, writable = False\<rparr>"
  let ?d = "\<lparr>wallets = [example_wallet], lastUpdate = ''2024-05-17T05:00:00.000Z''\<rparr>"
  let ?p = "\<lparr>p_address = Val ''0xabc1'', p_balance = Absent, p_wethBalance = Absent,
      p_transactionCount = Absent, p_lastActivity = Absent, p_connectedAt = Absent,
      p_spinsAvailable = Val 3, p_prizesWon = Absent, p_gamesPlayed = Absent,
      p_dayStreak = Absent, p_nextSpinTime = Absent, p_todayTransfer = Absent,
      p_lastTransferDate = Absent, p_transferAmount = Absent, p_lastSpinDate = Absent\<rparr>"
  have iso: "toISOString ?now = ''2024-05-17T05:00:00.000Z''"
    by (simp add: toISOString_def utc_def pad2_def pad3_def pad4_def digit_def)
  have l: "loaded (loadData ?now ?bad) = Inr \<lparr>wallets = [], lastUpdate = toISOString ?now\<rparr>"
    by (simp add: loaded_def loadData_eq emptySnapshot_def)
  note t1 = load_save_never_throw [of ?bad ?now ?d "\<lparr>wallets = [], lastUpdate = toISOString ?now\<rparr>"
      ?p "''0xabc1''"]
  note t2 = load_save_never_throw [of "store_of [example_wallet]" ?now ?d]
  note t3 = load_save_never_throw [of "store_of []" ?now ?d]
  have "loadData ?now ?bad = Snapshot \<lparr>wallets = [], lastUpdate = ''2024-05-17T05:00:00.000Z''\<rparr>"
    using t1 unfolding iso by simp
  moreover have "loadData ?now (store_of [example_wallet]) =
     Snapshot \<lparr>wallets = [example_wallet], lastUpdate = ''2024-05-17T01:00:00.000Z''\<rparr>"
    using t2 by (simp add: store_of_def)
  moreover have "saveData ?d ?bad = ?bad" using t1 by simp
  moreover have "loadData ?now (saveData ?d (store_of [])) = Snapshot ?d"
    using t3 by (simp add: store_of_def)
  moreover have "saveWalletData ?now ?p ?bad = Inr ?bad" using t1 l by simp
  ultimately show ?thesis by simp
qed

text \<open>
  Claim C7 as stated, for every corrupt content, fails: a file that holds the JSON
  document \<^verbatim>\<open>{}\<close> parses, so \<^verbatim>\<open>loadData\<close> returns that object and not an empty snapshot,
  and the lookup that reads its \<^verbatim>\<open>wallets\<close> raises a TypeError.
\<close>

theorem loadData_returns_non_snapshot:
  "loadData (utc 2024 5 17 5 0 0) \<lparr>disk = Parses EmptyObject, writable = True\<rparr> = EmptyObject \<and>
   loadData (utc 2024 5 17 5 0 0) \<lparr>disk = Parses EmptyObject, writable = True\<rparr> \<noteq>
     Snapshot \<lparr>wallets = [], lastUpdate = toISOString (utc 2024 5 17 5 0 0)\<rparr> \<and>
   getWalletData (utc 2024 5 17 5 0 0) ''0xabc1'' \<lparr>disk = Parses EmptyObject, writable = True\<rparr> =
     Inl TypeError"
  by (simp add: loadData_eq getWalletData_def loaded_def)


subsection \<open>The upsert\<close>







subsection \<open>The daily transfer\<close>














subsection \<open>The bounded spin loop\<close>

declare spinLoop.simps [simp del]

lemma spinLoop_bound:
  "spinLoop b now a c st = (e, n, st') \<Longrightarrow> c \<le> maxSpins \<Longrightarrow> c \<le> n \<and> n \<le> maxSpins"
proof (induction b now a c st rule: spinLoop.induct)
  case (1 b now a spinCount st)
  show ?case
  proof (cases "spinCount < maxSpins")
    case False
    with "1.prems" show ?thesis by (simp add: spinLoop.simps [of b now a spinCount st])
  next
    case True
    note lt = this
    show ?thesis
    proof (cases "checkSpinsAvailable now a st")
      case (Inl e)
      with lt "1.prems" show ?thesis by (simp add: spinLoop.simps [of b now a spinCount st])
    next
      case (Inr avail)
      obtain success st1 where sw: "spinWheel b (spinCount + 1) st = (success, st1)"
        by (cases "spinWheel b (spinCount + 1) st")
      obtain reloaded st2 where rr: "reloadAndReconnect b (spinCount + 1) st1 = (reloaded, st2)"
        by (cases "reloadAndReconnect b (spinCount + 1) st1")
      show ?thesis
      proof (cases "avail \<and> success \<and> reloaded")
        case False
        with lt Inr sw rr "1.prems" show ?thesis
          by (auto simp: spinLoop.simps [of b now a spinCount st] split: if_splits)
      next
        case True
        with lt Inr sw rr "1.prems"(1)
        have rec: "spinLoop b now a (spinCount + 1)
            (extractAndSaveWalletData b (spinCount + 1) st2) = (e, n, st')"
          by (simp add: spinLoop.simps [of b now a spinCount st])
        from True have "\<not> \<not> avail" "success" "\<not> \<not> reloaded" by simp_all
        from "1.IH" [OF lt Inr this(1) sw [symmetric] this(2) rr [symmetric] this(3) rec] lt
        show ?thesis by simp
      qed
    qed
  qed
qed

lemma spinLoop_stuck:
  assumes "checkSpinsAvailable now a st = Inr True"
    and "\<forall>k. spinWheel b k st = (True, st) \<and> reloadAndReconnect b k st = (True, st) \<and>
             extractAndSaveWalletData b k st = st"
  shows "c \<le> maxSpins \<Longrightarrow> spinLoop b now a c st = (None, maxSpins, st)"
proof (induction "maxSpins - c" arbitrary: c)
  case 0
  then have "c = maxSpins" by simp
  then show ?case by (simp add: spinLoop.simps [of b now a maxSpins st])
next
  case (Suc m)
  then have lt: "c < maxSpins" and m: "m = maxSpins - (c + 1)" and le: "c + 1 \<le> maxSpins"
    by simp_all
  from Suc.hyps(1) [OF m le] have "spinLoop b now a (c + 1) st = (None, maxSpins, st)" .
  with lt assms show ?case by (simp add: spinLoop.simps [of b now a c st])
qed

lemma performAll_bound:
  "performAllAvailableSpins b now a st = (e, n, st') \<Longrightarrow> n \<le> maxSpins"
  using spinLoop_bound [of b now a 0 st e n st'] by (simp add: performAllAvailableSpins_def)

lemma openAndSpin_bound:
  assumes "openAndSpin b now a recheck flags st = (r, s, n)"
  shows "n \<le> maxSpins"
proof -
  obtain connected st1 where c: "connectToLineaRewards b st = (connected, st1)"
    by (cases "connectToLineaRewards b st")
  obtain e m st2 where p: "performAllAvailableSpins b now a st1 = (e, m, st2)"
    by (cases "performAllAvailableSpins b now a st1")
  from performAll_bound [OF p] have "m \<le> maxSpins" .
  with assms c p show ?thesis
    by (auto simp: openAndSpin_def split: if_splits sum.splits option.splits)
qed

lemma planAndDispatch_bound: "spinsMade (planAndDispatch ev b now a dtr st made) \<le> maxSpins"
proof -
  have "\<And>recheck flags s made. spinsMade (case openAndSpin b now a recheck flags s of
      (r, s', n) \<Rightarrow> \<lparr>returned = r, final = s', botCreated = True,
         planned = Some RefreshThenDecide, spinsMade = n, ledger = made\<rparr>) \<le> maxSpins"
    using openAndSpin_bound by (auto split: prod.splits)
  moreover have "\<And>recheck flags s made. spinsMade (case openAndSpin b now a recheck flags s of
      (r, s', n) \<Rightarrow> \<lparr>returned = r, final = s', botCreated = True,
         planned = Some ConsumeSpins, spinsMade = n, ledger = made\<rparr>) \<le> maxSpins"
    using openAndSpin_bound by (auto split: prod.splits)
  ultimately show ?thesis
    by (simp add: planAndDispatch_def Let_def split: sum.splits)
qed

text \<open>
  Claim C9. \<^verbatim>\<open>performAllAvailableSpins\<close> returns for every behaviour of the page, having
  made at most \<open>maxSpins = 10\<close> spins. The loop stops early, at any iteration, when the
  store reports no spins left (no further spin is made) and when a spin fails (that spin
  is the last). On a page that accepts every spin and keeps the store's spin count
  positive for ever, exactly 10 spins are made. A whole pass over a wallet makes at most
  10 spins as well.
\<close>

theorem spin_loop_bounded:
  "fst (snd (performAllAvailableSpins b now a st)) \<le> maxSpins \<and> maxSpins = 10 \<and>
   (\<forall>c s. c < maxSpins \<and> checkSpinsAvailable now a s = Inr False \<longrightarrow>
      spinLoop b now a c s = (None, c, s)) \<and>
   (\<forall>c s. c < maxSpins \<and> checkSpinsAvailable now a s = Inr True \<and>
          \<not> fst (spinWheel b (c + 1) s) \<longrightarrow>
      spinLoop b now a c s =
        (None, c + 1, extractAndSaveWalletData b (c + 1) (snd (spinWheel b (c + 1) s)))) \<and>
   (checkSpinsAvailable now a st = Inr True \<and>
    (\<forall>k. spinWheel b k st = (True, st) \<and> reloadAndReconnect b k st = (True, st) \<and>
         extractAndSaveWalletData b k st = st) \<longrightarrow>
      performAllAvailableSpins b now a st = (None, 10, st)) \<and>
   (case processWallet ev b now key st of Inl e \<Rightarrow> True | Inr p \<Rightarrow> spinsMade p \<le> maxSpins)"
proof (intro conjI allI impI)
  obtain e n st' where r: "spinLoop b now a 0 st = (e, n, st')"
    by (cases "spinLoop b now a 0 st")
  from spinLoop_bound [OF r] show "fst (snd (performAllAvailableSpins b now a st)) \<le> maxSpins"
    by (simp add: performAllAvailableSpins_def r)
next
  show "maxSpins = 10" by (simp add: maxSpins_def)
next
  fix c s
  assume "c < maxSpins \<and> checkSpinsAvailable now a s = Inr False"
  then show "spinLoop b now a c s = (None, c, s)"
    by (simp add: spinLoop.simps [of b now a c s])
next
  fix c s
  assume "c < maxSpins \<and> checkSpinsAvailable now a s = Inr True \<and>
          \<not> fst (spinWheel b (c + 1) s)"
  moreover obtain success s1 where "spinWheel b (c + 1) s = (success, s1)"
    by (cases "spinWheel b (c + 1) s")
  ultimately show "spinLoop b now a c s =
        (None, c + 1, extractAndSaveWalletData b (c + 1) (snd (spinWheel b (c + 1) s)))"
    by (simp add: spinLoop.simps [of b now a c s])
next
  assume "checkSpinsAvailable now a st = Inr True \<and>
    (\<forall>k. spinWheel b k st = (True, st) \<and> reloadAndReconnect b k st = (True, st) \<and>
         extractAndSaveWalletData b k st = st)"
  then show "performAllAvailableSpins b now a st = (None, 10, st)"
    using spinLoop_stuck [of now a st b 0]
    by (simp add: performAllAvailableSpins_def maxSpins_def)
next
  show "case processWallet ev b now key st of Inl e \<Rightarrow> True | Inr p \<Rightarrow> spinsMade p \<le> maxSpins"
    by (simp add: processWallet_def planAndDispatch_bound
        split: option.splits sum.splits prod.splits)
qed

theorem spin_loop_bounded_witness:
  "checkSpinsAvailable (utc 2024 5 17 5 0 0) ''0xabc1'' (store_of [example_wallet]) = Inr True \<and>
   performAllAvailableSpins stuck_bot (utc 2024 5 17 5 0 0) ''0xabc1'' (store_of [example_wallet])
     = (None, 10, store_of [example_wallet]) \<and>
   performAllAvailableSpins failing_bot (utc 2024 5 17 5 0 0) ''0xabc1''
     (store_of [example_wallet]) = (None, 1, store_of [example_wallet]) \<and>
   checkSpinsAvailable (utc 2024 5 17 5 0 0) ''0xabc1'' (store_of []) = Inr False \<and>
   performAllAvailableSpins stuck_bot (utc 2024 5 17 5 0 0) ''0xabc1'' (store_of [])
     = (None, 0, store_of [])"
proof -
  let ?now = "utc 2024 5 17 5 0 0" and ?st = "store_of [example_wallet]"
  have c1: "checkSpinsAvailable ?now ''0xabc1'' ?st = Inr True"
    by (simp add: checkSpinsAvailable_def getWalletData_def loaded_def loadData_eq store_of_def
        same_address_def example_wallet_def example_evals)
  have c0: "checkSpinsAvailable ?now ''0xabc1'' (store_of []) = Inr False"
    by (simp add: checkSpinsAvailable_def getWalletData_def loaded_def loadData_eq store_of_def)
  have m: "0 < maxSpins" by (simp add: maxSpins_def)
  note t1 = spin_loop_bounded [of stuck_bot ?now "''0xabc1''" ?st]
  note t2 = spin_loop_bounded [of failing_bot ?now "''0xabc1''" ?st]
  note t3 = spin_loop_bounded [of stuck_bot ?now "''0xabc1''" "store_of []"]
  have "performAllAvailableSpins stuck_bot ?now ''0xabc1'' ?st = (None, 10, ?st)"
    using t1 c1 by (simp add: stuck_bot_def)
  moreover have "spinLoop failing_bot ?now ''0xabc1'' 0 ?st = (None, 1, ?st)"
    using t2 [THEN conjunct2, THEN conjunct2, THEN conjunct2, THEN conjunct1, rule_format,
        of 0 ?st] c1 m
    by (simp add: failing_bot_def)
  moreover have "spinLoop stuck_bot ?now ''0xabc1'' 0 (store_of []) = (None, 0, store_of [])"
    using t3 [THEN conjunct2, THEN conjunct2, THEN conjunct1, rule_format, of 0 "store_of []"]
      c0 m
    by simp
  ultimately show ?thesis using c1 c0 by (simp add: performAllAvailableSpins_def)
qed


subsection \<open>The planner\<close>

lemma getWalletDataSync_eq: "getWalletDataSync now a st = getWalletData now a st"
  by (simp add: getWalletDataSync_def getWalletData_def)


lemma planAndDispatch_completed:
  assumes g: "getWalletData now a st = Inr (Some w)"
    and d: "lastTransferDate w = Some (isoDate now)"
    and z: "spinsAvailable w = Some 0"
    and r: "shouldRefreshSpinsForNewDay now a st = Inr False"
  shows "planAndDispatch ev b now a dtr st made =
     \<lparr>returned = \<lparr>hasWETHBalance =
                     (case wethBalance w of None \<Rightarrow> False
                      | Some bal \<Rightarrow> bal \<noteq> [] \<and> gt0 (parseFloat ev bal)),
                   dailyTransferCompleted = True, hasAvailableSpins = False,
                   spinsPerformed = False\<rparr>,
      final = st, botCreated = False, planned = Some Skip, spinsMade = 0, ledger = made\<rparr>"
proof -
  have c: "checkSpinsAvailable now a st = Inr False"
    using g z by (simp add: checkSpinsAvailable_def)
  have o: "\<not> otherDay (datePart (lastTransferDate w)) (isoDate now)"
    by (simp add: d datePart_stamps otherDay_def)
  obtain nd where nd: "isNewDayForWallet now a st = Inr nd"
    using g by (simp add: isNewDayForWallet_found getWalletDataSync_eq)
  have rs: "resetDailyTransferFlagIfNewDay now a st = Inr st"
    using g o
    by (simp add: resetDailyTransferFlagIfNewDay_def getWalletDataSync_eq splitT0_toISOString)
  show ?thesis
    using g d z r c nd rs
    by (simp add: planAndDispatch_def splitT0_toISOString Let_def)
qed


text \<open>
  Claim C4. Let the record that \<^verbatim>\<open>processWallet\<close> reads after its two ledger checks be
  present, with \<open>lastTransferDate\<close> equal to today's UTC date and \<open>spinsAvailable\<close> exactly 0,
  and let \<^verbatim>\<open>shouldRefreshSpinsForNewDay\<close> be false. Then the pass returns at the first
  rule: \<open>dailyTransferCompleted\<close> true, \<open>hasAvailableSpins\<close> false, \<open>spinsPerformed\<close> false, with
  no browser session opened, no spin made and the store as the ledger checks left it,
  whatever the page would have done.
\<close>

theorem fully_completed_wallet_is_skipped:
  assumes "privateKeyToAccount ev k = Some a"
    and "ensureDatabaseExists now st = Inr st0"
    and "checkAndDepositWETH ev now k st0 = (d1, st1, m1)"
    and "checkAndPerformDailyTransfer ev now k st1 = (d2, st2, m2)"
    and "getWalletData now a st2 = Inr (Some w)"
    and "lastTransferDate w = Some (isoDate now)"
    and "spinsAvailable w = Some 0"
    and "shouldRefreshSpinsForNewDay now a st2 = Inr False"
  shows "processWallet ev b now k st =
     Inr \<lparr>returned = \<lparr>hasWETHBalance =
                          (case wethBalance w of None \<Rightarrow> False
                           | Some bal \<Rightarrow> bal \<noteq> [] \<and> gt0 (parseFloat ev bal)),
                        dailyTransferCompleted = True, hasAvailableSpins = False,
                        spinsPerformed = False\<rparr>,
          final = st2, botCreated = False, planned = Some Skip, spinsMade = 0,
          ledger = m1 @ m2\<rparr>"
  using assms(1-4) planAndDispatch_completed [OF assms(5-8)]
  by (simp add: processWallet_def)

theorem fully_completed_wallet_is_skipped_witness:
  "privateKeyToAccount example_env ''0xkey1'' = Some ''0xAbC1'' \<and>
   ensureDatabaseExists (utc 2024 5 17 5 0 0)
     (store_of [example_wallet\<lparr>spinsAvailable := Some 0,
        lastTransferDate := Some ''2024-05-17'',
        lastSpinDate := Some ''2024-05-17T04:00:00.000Z''\<rparr>]) =
     Inr (store_of [example_wallet\<lparr>spinsAvailable := Some 0,
        lastTransferDate := Some ''2024-05-17'',
        lastSpinDate := Some ''2024-05-17T04:00:00.000Z''\<rparr>]) \<and>
   isoDate (utc 2024 5 17 5 0 0) = ''2024-05-17'' \<and>
   shouldRefreshSpinsForNewDay (utc 2024 5 17 5 0 0) ''0xAbC1''
     (store_of [example_wallet\<lparr>spinsAvailable := Some 0,
        lastTransferDate := Some ''2024-05-17'',
        lastSpinDate := Some ''2024-05-17T04:00:00.000Z''\<rparr>]) = Inr False \<and>
   processWallet example_env stuck_bot (utc 2024 5 17 5 0 0) ''0xkey1''
     (store_of [example_wallet\<lparr>spinsAvailable := Some 0,
        lastTransferDate := Some ''2024-05-17'',
        lastSpinDate := Some ''2024-05-17T04:00:00.000Z''\<rparr>]) =
     Inr \<lparr>returned = \<lparr>hasWETHBalance = True, dailyTransferCompleted = True,
                        hasAvailableSpins = False, spinsPerformed = False\<rparr>,
          final = store_of [example_wallet\<lparr>spinsAvailable := Some 0,
             lastTransferDate := Some ''2024-05-17'',
             lastSpinDate := Some ''2024-05-17T04:00:00.000Z''\<rparr>],
          botCreated = False, planned = Some Skip, spinsMade = 0, ledger = []\<rparr>"
proof -
  let ?now = "utc 2024 5 17 5 0 0"
  let ?w = "example_wallet\<lparr>spinsAvailable := Some 0, lastTransferDate := Some ''2024-05-17'',
        lastSpinDate := Some ''2024-05-17T04:00:00.000Z''\<rparr>"
  let ?st = "store_of [?w]"
  have acc: "privateKeyToAccount example_env ''0xkey1'' = Some ''0xAbC1''"
    by (simp add: example_env_def gt0_def le0_def)
  have en: "ensureDatabaseExists ?now ?st = Inr ?st"
    by (simp add: ensureDatabaseExists_def store_of_def)
  have d: "isoDate ?now = ''2024-05-17''"
    by (simp add: isoDate_def utc_def pad2_def pad4_def digit_def)
  have g: "getWalletData ?now ''0xAbC1'' ?st = Inr (Some ?w)"
    by (simp add: getWalletData_def loaded_def loadData_eq store_of_def same_address_def
        example_wallet_def)
  have dep: "checkAndDepositWETH example_env ?now ''0xkey1'' ?st = (True, ?st, [])"
    by (simp add: checkAndDepositWETH_def example_env_def gt0_def le0_def)
  have tr: "checkAndPerformDailyTransfer example_env ?now ''0xkey1'' ?st = (True, ?st, [])"
    using acc g by (simp add: checkAndPerformDailyTransfer_def splitT0_toISOString d)
  have f: "lastTransferDate ?w = Some (isoDate ?now)" "spinsAvailable ?w = Some 0"
    by (simp_all add: d)
  have sp: "splitT0 ''2024-05-17T04:00:00.000Z'' = ''2024-05-17''"
    "getUTCHours ''2024-05-17T04:00:00.000Z'' = Some 4"
    by (simp_all add: splitT0_def getUTCHours_def Date_parse_def digit_val_def valid_Date_def)
  have sr: "shouldRefreshSpinsForNewDay ?now ''0xAbC1'' ?st = Inr False"
    using g
    by (simp add: shouldRefreshSpinsForNewDay_def getWalletDataSync_eq splitT0_toISOString d sp)
  have wb: "(case wethBalance ?w of None \<Rightarrow> False
      | Some bal \<Rightarrow> bal \<noteq> [] \<and> gt0 (parseFloat example_env bal)) = True"
    by (simp add: example_wallet_def example_env_def gt0_def le0_def)
  from fully_completed_wallet_is_skipped [OF acc en dep tr g f sr, of stuck_bot]
  have "processWallet example_env stuck_bot ?now ''0xkey1'' ?st =
     Inr \<lparr>returned = \<lparr>hasWETHBalance = True, dailyTransferCompleted = True,
                        hasAvailableSpins = False, spinsPerformed = False\<rparr>,
          final = ?st, botCreated = False, planned = Some Skip, spinsMade = 0, ledger = []\<rparr>"
    unfolding wb by simp
  with acc en d sr show ?thesis by simp
qed




subsection \<open>Secrets at rest\<close>









lemma split_not_Nil: "split sep s \<noteq> []"
  by (induction s) (auto split: list.splits)





lemma byte_nibbles: "char_of ((of_char c :: nat) div 16 * 16 + of_char c mod 16) = c"
  by simp










end
